theory Spec2Isabelle
  imports Main
begin

section \<open>Errors\<close>

text \<open>
  The exceptions the modelled code can raise, as values.  \<open>ValueError\<close> carries the
  message of the two \<^verbatim>\<open>raise ValueError(...)\<close> statements of the factories;
  \<open>TypeError\<close> is what Python raises when a constructor is called with keyword
  arguments it does not accept; \<open>AttributeError\<close> is what Python raises when a
  method is called on an object that does not have it (its argument is the attribute).
\<close>

datatype error = ValueError string | TypeError | AttributeError string

section \<open>Life forms (core/life\_forms.py)\<close>

text \<open>
  \<^verbatim>\<open>DNASequence\<close> is a generic container of one value with \<^verbatim>\<open>bind\<close>,
  \<^verbatim>\<open>fmap\<close> and \<^verbatim>\<open>get\<close>.
\<close>

datatype 'a DNASequence = DNASequence (get: 'a)

definition bind :: "('a \<Rightarrow> 'b DNASequence) \<Rightarrow> 'a DNASequence \<Rightarrow> 'b DNASequence" where
  "bind func self = func (get self)"

definition fmap :: "('a \<Rightarrow> 'b) \<Rightarrow> 'a DNASequence \<Rightarrow> 'b DNASequence" where
  "fmap func self = DNASequence (func (get self))"

text \<open>
  The attributes of a \<^verbatim>\<open>LifeForm\<close>: the public \<^verbatim>\<open>complexity\<close>, the
  \<^verbatim>\<open>_dna\<close> container and the \<^verbatim>\<open>_message_fragment\<close> of
  \<^verbatim>\<open>MessageCarrierMixin\<close>.  Python's integers are unbounded, hence \<open>int\<close>.
\<close>

record LifeForm =
  complexity :: int
  dna :: "int DNASequence"
  message_fragment :: string

text \<open>
  \<^verbatim>\<open>LifeForm.__init__(complexity)\<close>: the mixin's initialiser sets the fragment to
  the empty string, then the complexity and the DNA container are stored.
\<close>

definition LifeForm_init :: "int \<Rightarrow> LifeForm" where
  "LifeForm_init c = \<lparr>complexity = c, dna = DNASequence c, message_fragment = ''''\<rparr>"

definition carry_message :: "string \<Rightarrow> LifeForm \<Rightarrow> LifeForm" where
  "carry_message fragment self = self\<lparr>message_fragment := fragment\<rparr>"

definition get_message_fragment :: "LifeForm \<Rightarrow> string" where
  "get_message_fragment self = message_fragment self"

text \<open>
  \<^verbatim>\<open>mutate\<close> reads the DNA container (not \<^verbatim>\<open>self.complexity\<close>), multiplies
  it, stores the product as the complexity and wraps it in a new container.
\<close>

definition mutate :: "int \<Rightarrow> LifeForm \<Rightarrow> LifeForm" where
  "mutate mutation_factor self =
     (let c = get (fmap (\<lambda>x. x * mutation_factor) (dna self))
      in self\<lparr>complexity := c, dna := DNASequence c\<rparr>)"

text \<open>
  The five concrete classes.  The four life forms carry the \<open>LifeForm\<close> attributes;
  a \<^verbatim>\<open>MessageBearer\<close> holds only its final message.
\<close>

datatype organism =
    Fish LifeForm
  | Amphibian LifeForm
  | Reptile LifeForm
  | Dinosaur LifeForm
  | MessageBearer string

definition Fish_init :: organism where
  "Fish_init = Fish (carry_message ''H'' (LifeForm_init 1))"

definition Amphibian_init :: "int \<Rightarrow> string \<Rightarrow> organism" where
  "Amphibian_init inherited_complexity inherited_message =
     Amphibian (carry_message (inherited_message @ ''ello'') (LifeForm_init inherited_complexity))"

definition Reptile_init :: "int \<Rightarrow> string \<Rightarrow> organism" where
  "Reptile_init inherited_complexity inherited_message =
     Reptile (carry_message (inherited_message @ '' '') (LifeForm_init inherited_complexity))"

definition Dinosaur_init :: "int \<Rightarrow> string \<Rightarrow> organism" where
  "Dinosaur_init inherited_complexity inherited_message =
     Dinosaur (carry_message (inherited_message @ ''World'') (LifeForm_init inherited_complexity))"

text \<open>\<^verbatim>\<open>hasattr(x, 'evolve')\<close> and \<^verbatim>\<open>hasattr(x, 'reveal')\<close>.\<close>

fun has_evolve :: "organism \<Rightarrow> bool" where
  "has_evolve (MessageBearer m) = False"
| "has_evolve other = True"

fun has_reveal :: "organism \<Rightarrow> bool" where
  "has_reveal (MessageBearer m) = True"
| "has_reveal other = False"

text \<open>
  \<^verbatim>\<open>evolve\<close> mutates the receiver and returns a new object of the next class.
  The model returns both: the receiver after the mutation and the new form.  A
  \<^verbatim>\<open>MessageBearer\<close> has no such method, so calling it raises.
\<close>

fun evolve :: "organism \<Rightarrow> error + (organism \<times> organism)" where
  "evolve (Fish self) =
     (let self' = mutate 2 self
      in Inr (Fish self', Amphibian_init (complexity self') (get_message_fragment self')))"
| "evolve (Amphibian self) =
     (let self' = mutate 3 self
      in Inr (Amphibian self', Reptile_init (complexity self') (get_message_fragment self')))"
| "evolve (Reptile self) =
     (let self' = mutate 4 self
      in Inr (Reptile self', Dinosaur_init (complexity self') (get_message_fragment self')))"
| "evolve (Dinosaur self) =
     (let self' = mutate 5 self
      in Inr (Dinosaur self', MessageBearer (get_message_fragment self')))"
| "evolve (MessageBearer m) = Inl (AttributeError ''evolve'')"

fun reveal :: "organism \<Rightarrow> error + string" where
  "reveal (MessageBearer final_message) = Inr final_message"
| "reveal other = Inl (AttributeError ''reveal'')"

text \<open>
  Reading the attributes of an organism: \<open>None\<close> where the object has no such
  attribute (a \<^verbatim>\<open>MessageBearer\<close> has neither a complexity nor a DNA container).
\<close>

fun life_form_of :: "organism \<Rightarrow> LifeForm option" where
  "life_form_of (Fish lf) = Some lf"
| "life_form_of (Amphibian lf) = Some lf"
| "life_form_of (Reptile lf) = Some lf"
| "life_form_of (Dinosaur lf) = Some lf"
| "life_form_of (MessageBearer m) = None"

definition complexity_of :: "organism \<Rightarrow> int option" where
  "complexity_of x = map_option complexity (life_form_of x)"

text \<open>The invariant \<^verbatim>\<open>self._dna.get() == self.complexity\<close>.\<close>

definition dna_matches :: "LifeForm \<Rightarrow> bool" where
  "dna_matches self = (get (dna self) = complexity self)"

definition dna_invariant :: "organism \<Rightarrow> bool" where
  "dna_invariant x = (case life_form_of x of None \<Rightarrow> True | Some lf \<Rightarrow> dna_matches lf)"

section \<open>Stages (core/stages.py)\<close>

datatype EvolutionStage =
    PRIMORDIAL_SOUP
  | AQUATIC
  | AMPHIBIOUS
  | TERRESTRIAL
  | APEX_PREDATOR
  | TRANSCENDENT

text \<open>\<^verbatim>\<open>stage.name\<close> and \<^verbatim>\<open>type(organism).__name__\<close>.\<close>

fun stage_name :: "EvolutionStage \<Rightarrow> string" where
  "stage_name PRIMORDIAL_SOUP = ''PRIMORDIAL_SOUP''"
| "stage_name AQUATIC = ''AQUATIC''"
| "stage_name AMPHIBIOUS = ''AMPHIBIOUS''"
| "stage_name TERRESTRIAL = ''TERRESTRIAL''"
| "stage_name APEX_PREDATOR = ''APEX_PREDATOR''"
| "stage_name TRANSCENDENT = ''TRANSCENDENT''"

fun type_name :: "organism \<Rightarrow> string" where
  "type_name (Fish lf) = ''Fish''"
| "type_name (Amphibian lf) = ''Amphibian''"
| "type_name (Reptile lf) = ''Reptile''"
| "type_name (Dinosaur lf) = ''Dinosaur''"
| "type_name (MessageBearer m) = ''MessageBearer''"

section \<open>Strings and built-in functions\<close>

text \<open>
  A string of the model is the UTF-8 encoding of a Python string: concatenation and
  comparison are those of the lists, and a string is ASCII text when no byte has its
  high bit set.  Three built-in functions of Python are used by the code.  On ASCII
  text \<^verbatim>\<open>str.lower()\<close> maps the letters \<open>A\<close> to \<open>Z\<close> to \<open>a\<close> to \<open>z\<close>
  and \<^verbatim>\<open>str.strip()\<close> removes the ASCII white space (codes 9 to 13 and 28 to 32)
  at both ends.  On any other text both follow the Unicode tables, and
  \<^verbatim>\<open>object.__str__\<close> of a life form (whose class defines no
  \<^verbatim>\<open>__str__\<close>) names the memory address of the object: these three are
  parameters of the model, collected in one record.
\<close>

record builtins =
  object_str :: "organism \<Rightarrow> string"
  unicode_lower :: "string \<Rightarrow> string"
  unicode_strip :: "string \<Rightarrow> string"

definition is_ascii :: "string \<Rightarrow> bool" where
  "is_ascii s = list_all (\<lambda>c. \<not> digit7 c) s"

definition ascii_lower_char :: "char \<Rightarrow> char" where
  "ascii_lower_char c =
     (case map_of (zip ''ABCDEFGHIJKLMNOPQRSTUVWXYZ'' ''abcdefghijklmnopqrstuvwxyz'') c of
        None \<Rightarrow> c
      | Some l \<Rightarrow> l)"

definition lower :: "builtins \<Rightarrow> string \<Rightarrow> string" where
  "lower py s = (if is_ascii s then map ascii_lower_char s else unicode_lower py s)"

definition is_ascii_space :: "char \<Rightarrow> bool" where
  "is_ascii_space c =
     (c \<in> set [CHR 0x09, CHR 0x0A, CHR 0x0B, CHR 0x0C, CHR 0x0D,
               CHR 0x1C, CHR 0x1D, CHR 0x1E, CHR 0x1F, CHR 0x20])"

definition strip :: "builtins \<Rightarrow> string \<Rightarrow> string" where
  "strip py s =
     (if is_ascii s then rev (dropWhile is_ascii_space (rev (dropWhile is_ascii_space s)))
      else unicode_strip py s)"

section \<open>The factories (patterns/factory.py, patterns/strategy.py)\<close>

text \<open>
  The classes a life-form registry can hold, and the keyword arguments
  \<^verbatim>\<open>create_life_form\<close> forwards to the constructor: each is given or left to
  its default.  \<^verbatim>\<open>Fish()\<close> accepts no keyword argument.
\<close>

datatype life_form_class = Fish_class | Amphibian_class | Reptile_class | Dinosaur_class

record life_form_kwargs =
  inherited_complexity :: "int option"
  inherited_message :: "string option"

definition no_kwargs :: life_form_kwargs where
  "no_kwargs = \<lparr>inherited_complexity = None, inherited_message = None\<rparr>"

definition or_default :: "'a \<Rightarrow> 'a option \<Rightarrow> 'a" where
  "or_default d v = (case v of None \<Rightarrow> d | Some x \<Rightarrow> x)"

fun construct_life_form :: "life_form_class \<Rightarrow> life_form_kwargs \<Rightarrow> error + organism" where
  "construct_life_form Fish_class kw =
     (if kw = no_kwargs then Inr Fish_init else Inl TypeError)"
| "construct_life_form Amphibian_class kw =
     Inr (Amphibian_init (or_default 2 (inherited_complexity kw))
            (or_default [] (inherited_message kw)))"
| "construct_life_form Reptile_class kw =
     Inr (Reptile_init (or_default 6 (inherited_complexity kw))
            (or_default [] (inherited_message kw)))"
| "construct_life_form Dinosaur_class kw =
     Inr (Dinosaur_init (or_default 24 (inherited_complexity kw))
            (or_default [] (inherited_message kw)))"

text \<open>The registry \<^verbatim>\<open>ConcreteLifeFormFactory.__init__\<close> builds, and \<^verbatim>\<open>register\<close>.\<close>

definition ConcreteLifeFormFactory_init :: "string \<rightharpoonup> life_form_class" where
  "ConcreteLifeFormFactory_init =
     map_of [(''fish'', Fish_class), (''amphibian'', Amphibian_class),
             (''reptile'', Reptile_class), (''dinosaur'', Dinosaur_class)]"

definition register ::
  "builtins \<Rightarrow> string \<Rightarrow> life_form_class \<Rightarrow> (string \<rightharpoonup> life_form_class) \<Rightarrow>
   (string \<rightharpoonup> life_form_class)" where
  "register py species_type life_form_cls registry =
     registry(lower py species_type \<mapsto> life_form_cls)"

text \<open>
  \<^verbatim>\<open>create_life_form\<close>: one lookup of the lower-cased name; when it finds nothing
  the \<^verbatim>\<open>ValueError\<close> is raised there and then.  The function has no handler and
  no loop, and is not wrapped by the \<^verbatim>\<open>retry\<close> decorator of the repository.
\<close>

definition create_life_form ::
  "builtins \<Rightarrow> (string \<rightharpoonup> life_form_class) \<Rightarrow> string \<Rightarrow> life_form_kwargs \<Rightarrow> error + organism" where
  "create_life_form py registry species_type kwargs =
     (case registry (lower py species_type) of
        None \<Rightarrow> Inl (ValueError (''Unknown species type: '' @ species_type))
      | Some life_form_cls \<Rightarrow>
          if lower py species_type = ''fish'' then construct_life_form life_form_cls no_kwargs
          else construct_life_form life_form_cls kwargs)"

text \<open>
  \<^verbatim>\<open>LifeFormBuilder\<close>: \<^verbatim>\<open>build\<close> makes a factory of its own and calls
  \<^verbatim>\<open>create_life_form\<close> on it, with no handler around the call.
\<close>

record LifeFormBuilder =
  builder_complexity :: int
  builder_message :: string
  builder_type :: string


definition with_complexity :: "int \<Rightarrow> LifeFormBuilder \<Rightarrow> LifeFormBuilder" where
  "with_complexity c self = self\<lparr>builder_complexity := c\<rparr>"

definition with_message :: "string \<Rightarrow> LifeFormBuilder \<Rightarrow> LifeFormBuilder" where
  "with_message message self = self\<lparr>builder_message := message\<rparr>"



text \<open>
  The strategies.  \<^verbatim>\<open>LinearEvolutionStrategy\<close> has no attribute and its
  constructor accepts no argument; \<^verbatim>\<open>AcceleratedEvolutionStrategy\<close> keeps its
  \<^verbatim>\<open>acceleration_factor\<close> (default 2).
\<close>

datatype strategy = LinearEvolutionStrategy | AcceleratedEvolutionStrategy int

datatype strategy_class = Linear_class | Accelerated_class

fun construct_strategy :: "strategy_class \<Rightarrow> int option \<Rightarrow> error + strategy" where
  "construct_strategy Linear_class acceleration_factor =
     (if acceleration_factor = None then Inr LinearEvolutionStrategy else Inl TypeError)"
| "construct_strategy Accelerated_class acceleration_factor =
     Inr (AcceleratedEvolutionStrategy (or_default 2 acceleration_factor))"

definition EvolutionStrategyFactory_strategies :: "string \<rightharpoonup> strategy_class" where
  "EvolutionStrategyFactory_strategies =
     map_of [(''linear'', Linear_class), (''accelerated'', Accelerated_class)]"

definition register_strategy ::
  "builtins \<Rightarrow> string \<Rightarrow> strategy_class \<Rightarrow> (string \<rightharpoonup> strategy_class) \<Rightarrow>
   (string \<rightharpoonup> strategy_class)" where
  "register_strategy py name strategy_cls registry = registry(lower py name \<mapsto> strategy_cls)"

definition create_strategy ::
  "builtins \<Rightarrow> (string \<rightharpoonup> strategy_class) \<Rightarrow> string \<Rightarrow> int option \<Rightarrow> error + strategy" where
  "create_strategy py registry strategy_type kwargs =
     (case registry (lower py strategy_type) of
        None \<Rightarrow> Inl (ValueError (''Unknown strategy type: '' @ strategy_type))
      | Some strategy_cls \<Rightarrow>
          if lower py strategy_type = ''linear'' then construct_strategy strategy_cls None
          else construct_strategy strategy_cls kwargs)"

section \<open>Shared state: singletons and the objects they hold (patterns/singleton.py)\<close>

text \<open>
  Objects that are shared and mutated live in a store, by address.  The classes whose
  metaclass is \<^verbatim>\<open>SingletonMeta\<close> are \<^verbatim>\<open>HelloWorldOrchestrator\<close>,
  \<^verbatim>\<open>Singleton\<close> and its subclass \<^verbatim>\<open>EvolutionLogger\<close>; they share the one
  dictionary \<^verbatim>\<open>SingletonMeta._instances\<close>, keyed by class.
\<close>

type_synonym addr = nat

datatype singleton_class = HelloWorldOrchestrator_class | EvolutionLogger_class | Singleton_class

text \<open>
  An observer attached to an engine is a reference to an \<^verbatim>\<open>EvolutionLogger\<close>
  object or a \<^verbatim>\<open>SilentObserver\<close> (which has no state).
\<close>

datatype observer = EvolutionLogger addr | SilentObserver

text \<open>
  \<^verbatim>\<open>EvolutionEngine\<close>: the attached observers, the strategy and the debug flag.
  (Its \<^verbatim>\<open>_pipeline\<close> is used by \<^verbatim>\<open>build_pipeline\<close> only.)
\<close>

record EvolutionEngine =
  observers :: "observer list"
  strategy :: strategy
  debug :: bool

text \<open>
  \<^verbatim>\<open>HelloWorldOrchestrator\<close>: the cached engine.  Its generator, transformer and
  factory are built by the constructor and never changed by any of its methods.
\<close>

record HelloWorldOrchestrator =
  engine :: "EvolutionEngine option"

text \<open>
  The state of the process: the module's \<^verbatim>\<open>DEBUG\<close> flag, the instance
  registry of \<^verbatim>\<open>SingletonMeta\<close>, the class-level table of
  \<^verbatim>\<open>EvolutionStrategyFactory\<close>, the next free address, and the stored
  orchestrators and loggers (a logger's state is its list of entries).  Console
  output is not part of the state: the \<^verbatim>\<open>print\<close> statements guarded by the
  debug flags return nothing and change no object.
\<close>

record world =
  DEBUG :: bool
  instances :: "singleton_class \<rightharpoonup> addr"
  strategies :: "string \<rightharpoonup> strategy_class"
  next_addr :: addr
  orchestrators :: "addr \<Rightarrow> HelloWorldOrchestrator"
  loggers :: "addr \<Rightarrow> string list"

definition initial_world :: "bool \<Rightarrow> world" where
  "initial_world d =
     \<lparr>DEBUG = d, instances = Map.empty, strategies = EvolutionStrategyFactory_strategies,
      next_addr = 0, orchestrators = (\<lambda>a. \<lparr>engine = None\<rparr>), loggers = (\<lambda>a. [])\<rparr>"

text \<open>
  \<^verbatim>\<open>super().__call__()\<close>: a new object at a fresh address, initialised by the
  \<^verbatim>\<open>__init__\<close> of its class.
\<close>

fun construct :: "singleton_class \<Rightarrow> world \<Rightarrow> addr \<times> world" where
  "construct HelloWorldOrchestrator_class w =
     (next_addr w,
      w\<lparr>next_addr := Suc (next_addr w),
        orchestrators := (orchestrators w)(next_addr w := \<lparr>engine = None\<rparr>)\<rparr>)"
| "construct EvolutionLogger_class w =
     (next_addr w,
      w\<lparr>next_addr := Suc (next_addr w), loggers := (loggers w)(next_addr w := [])\<rparr>)"
| "construct Singleton_class w = (next_addr w, w\<lparr>next_addr := Suc (next_addr w)\<rparr>)"

text \<open>
  \<^verbatim>\<open>SingletonMeta.__call__\<close>: an instance is built and stored only when the class
  has none; the stored one is returned.  (One thread: the lock changes nothing.)
\<close>

definition SingletonMeta_call :: "singleton_class \<Rightarrow> world \<Rightarrow> addr \<times> world" where
  "SingletonMeta_call cls w =
     (case instances w cls of
        Some stored \<Rightarrow> (stored, w)
      | None \<Rightarrow>
          (let (inst, w1) = construct cls w;
               w2 = w1\<lparr>instances := (instances w1)(cls \<mapsto> inst)\<rparr>
           in (inst, w2)))"



section \<open>Observers (patterns/observer.py)\<close>

definition log_entry :: "organism \<Rightarrow> EvolutionStage \<Rightarrow> string" where
  "log_entry org stage =
     ''Evolution stage: '' @ stage_name stage @ '' - Organism: '' @ type_name org"

fun on_evolution_step :: "observer \<Rightarrow> organism \<Rightarrow> EvolutionStage \<Rightarrow> world \<Rightarrow> world" where
  "on_evolution_step (EvolutionLogger a) org stage w =
     w\<lparr>loggers := (loggers w)(a := loggers w a @ [log_entry org stage])\<rparr>"
| "on_evolution_step SilentObserver org stage w = w"

section \<open>The evolution engine (core/evolution\_engine.py)\<close>

definition EvolutionEngine_init :: "strategy option \<Rightarrow> bool \<Rightarrow> EvolutionEngine" where
  "EvolutionEngine_init strat dbg =
     \<lparr>observers = [], strategy = or_default LinearEvolutionStrategy strat, debug = dbg\<rparr>"

definition attach_observer :: "observer \<Rightarrow> EvolutionEngine \<Rightarrow> EvolutionEngine" where
  "attach_observer ob self = self\<lparr>observers := observers self @ [ob]\<rparr>"

definition notify_observers :: "EvolutionEngine \<Rightarrow> organism \<Rightarrow> EvolutionStage \<Rightarrow> world \<Rightarrow> world" where
  "notify_observers self org stage w =
     foldl (\<lambda>w' ob. on_evolution_step ob org stage w') w (observers self)"

text \<open>
  One pass through the body of the loop of \<^verbatim>\<open>run_evolution\<close>: the observers are
  notified, then an organism that has an \<^verbatim>\<open>evolve\<close> method is replaced by what
  the method returns, and any other organism ends the loop (\<^verbatim>\<open>break\<close>).  The body
  has no handler: an exception of \<^verbatim>\<open>evolve\<close> leaves the function.  The
  receiver, which \<^verbatim>\<open>evolve\<close> has mutated, is no part of what the function
  returns.  The stage reaches the observers (and the debug print) only, and the
  strategy of the engine is not consulted.
\<close>

datatype loop_exit = Continue organism | Break organism

definition stage_step ::
  "EvolutionEngine \<Rightarrow> EvolutionStage \<Rightarrow> organism \<Rightarrow> world \<Rightarrow> error + (loop_exit \<times> world)" where
  "stage_step self stage current w =
     (let w1 = notify_observers self current stage w
      in if has_evolve current then
           (case evolve current of
              Inl e \<Rightarrow> Inl e
            | Inr (mutated, next_form) \<Rightarrow> Inr (Continue next_form, w1))
         else Inr (Break current, w1))"

text \<open>
  The loop itself, \<^verbatim>\<open>for stage in stages\<close>, over what a pass does: a pass that
  raises ends the function with its exception (nothing is returned, and the state the
  exception leaves behind is not part of the model), a pass that breaks ends the loop
  with the organism it holds, and any other pass hands its organism to the next
  stage.  With the observers and the life forms of the repository a pass is
  \<open>stage_step\<close>; \<^verbatim>\<open>attach_observer\<close> accepts any object, though, and with an
  observer from elsewhere a pass may do otherwise, and may raise.
\<close>

type_synonym pass = "EvolutionStage \<Rightarrow> organism \<Rightarrow> world \<Rightarrow> error + (loop_exit \<times> world)"

fun run_loop :: "pass \<Rightarrow> EvolutionStage list \<Rightarrow> organism \<Rightarrow> world \<Rightarrow> error + (organism \<times> world)" where
  "run_loop body [] current w = Inr (current, w)"
| "run_loop body (stage # rest) current w =
     (case body stage current w of
        Inl e \<Rightarrow> Inl e
      | Inr (Continue next_form, w1) \<Rightarrow> run_loop body rest next_form w1
      | Inr (Break final, w1) \<Rightarrow> Inr (final, w1))"

definition run_stages ::
  "EvolutionEngine \<Rightarrow> EvolutionStage list \<Rightarrow> organism \<Rightarrow> world \<Rightarrow> error + (organism \<times> world)" where
  "run_stages self sts current w = run_loop (stage_step self) sts current w"

text \<open>The list \<^verbatim>\<open>stages\<close> of \<^verbatim>\<open>run_evolution\<close>.\<close>

definition stages :: "EvolutionStage list" where
  "stages = [AQUATIC, AMPHIBIOUS, TERRESTRIAL, APEX_PREDATOR, TRANSCENDENT]"

definition run_evolution_with ::
  "pass \<Rightarrow> organism option \<Rightarrow> world \<Rightarrow> error + (organism \<times> world)" where
  "run_evolution_with body initial_organism w =
     (let current = (case initial_organism of None \<Rightarrow> Fish_init | Some given \<Rightarrow> given)
      in run_loop body stages current w)"

definition run_evolution ::
  "EvolutionEngine \<Rightarrow> organism option \<Rightarrow> world \<Rightarrow> error + (organism \<times> world)" where
  "run_evolution self initial_organism w =
     run_evolution_with (stage_step self) initial_organism w"


section \<open>The message generator (generators/message\_generator.py)\<close>

text \<open>
  What \<^verbatim>\<open>generate\<close> is given: an organism or a plain string.  \<^verbatim>\<open>str(source)\<close>
  is the string itself, the message of a \<^verbatim>\<open>MessageBearer\<close> (its
  \<^verbatim>\<open>__str__\<close> calls \<^verbatim>\<open>reveal\<close>), and for a life form the text of
  \<^verbatim>\<open>object.__str__\<close>, the built-in \<open>object_str\<close>.
\<close>

datatype source = Organism organism | Text string

fun py_str :: "builtins \<Rightarrow> source \<Rightarrow> string" where
  "py_str py (Text s) = s"
| "py_str py (Organism (MessageBearer m)) = m"
| "py_str py (Organism other) = object_str py other"

text \<open>The class \<^verbatim>\<open>create_message_class\<close> builds: \<^verbatim>\<open>render\<close> of an instance.\<close>

definition RuntimeMessage_render :: "builtins \<Rightarrow> string \<Rightarrow> string \<Rightarrow> string" where
  "RuntimeMessage_render py prefix suffix = strip py (prefix @ ''Hello World'' @ suffix)"

text \<open>The methods \<^verbatim>\<open>MessageMeta\<close> adds to \<^verbatim>\<open>DynamicMessageClass\<close>.\<close>

definition get_greeting :: string where "get_greeting = ''Hello''"

definition get_target :: string where "get_target = ''World''"

definition get_separator :: string where "get_separator = '' ''"

definition compose_message :: string where
  "compose_message = get_greeting @ get_separator @ get_target"

definition simple_generation :: "builtins \<Rightarrow> source \<Rightarrow> error + string" where
  "simple_generation py src = Inr (py_str py src)"

definition dynamic_generation :: "builtins \<Rightarrow> source \<Rightarrow> error + string" where
  "dynamic_generation py src = Inr (RuntimeMessage_render py [] [])"

definition meta_generation :: "builtins \<Rightarrow> source \<Rightarrow> error + string" where
  "meta_generation py src = Inr compose_message"

fun composed_generation :: "builtins \<Rightarrow> source \<Rightarrow> error + string" where
  "composed_generation py (Organism org) =
     (if has_reveal org then reveal org else Inr (py_str py (Organism org)))"
| "composed_generation py (Text s) = Inr (py_str py (Text s))"

definition MessageGenerator_strategies ::
  "string \<rightharpoonup> (builtins \<Rightarrow> source \<Rightarrow> error + string)" where
  "MessageGenerator_strategies =
     map_of [(''simple'', simple_generation), (''dynamic'', dynamic_generation),
             (''meta'', meta_generation), (''composed'', composed_generation)]"

definition generate :: "builtins \<Rightarrow> source \<Rightarrow> string \<Rightarrow> error + string" where
  "generate py src strat =
     (case MessageGenerator_strategies strat of
        None \<Rightarrow> simple_generation py src
      | Some generation_func \<Rightarrow> generation_func py src)"

text \<open>\<^verbatim>\<open>MessageTransformer\<close>: the identity and the pipeline.\<close>

definition identity :: "string \<Rightarrow> string" where
  "identity message = message"

definition apply_pipeline :: "string \<Rightarrow> (string \<Rightarrow> string) list \<Rightarrow> string" where
  "apply_pipeline message transformations =
     foldl (\<lambda>result transform. transform result) message transformations"

text \<open>
  \<^verbatim>\<open>LazyMessage\<close>: the generator runs at the first \<^verbatim>\<open>__str__\<close> and its value
  is cached; \<^verbatim>\<open>force\<close> is \<^verbatim>\<open>str(self)\<close>.
\<close>

record LazyMessage =
  generator :: "unit \<Rightarrow> string"
  cached_value :: "string option"

definition LazyMessage_init :: "(unit \<Rightarrow> string) \<Rightarrow> LazyMessage" where
  "LazyMessage_init g = \<lparr>generator = g, cached_value = None\<rparr>"

definition force :: "LazyMessage \<Rightarrow> string \<times> LazyMessage" where
  "force self =
     (case cached_value self of
        None \<Rightarrow> (let v = generator self () in (v, self\<lparr>cached_value := Some v\<rparr>))
      | Some v \<Rightarrow> (v, self))"

section \<open>The orchestrator and the pipeline (main.py)\<close>

definition create_initial_organism :: "builtins \<Rightarrow> error + organism" where
  "create_initial_organism py =
     create_life_form py ConcreteLifeFormFactory_init ''fish'' no_kwargs"

text \<open>
  \<^verbatim>\<open>initialize_engine\<close>: the strategy comes from the strategy factory, the engine
  takes the module's debug flag, and the singleton logger and a silent observer are
  attached.
\<close>

definition initialize_engine :: "builtins \<Rightarrow> world \<Rightarrow> error + (EvolutionEngine \<times> world)" where
  "initialize_engine py w =
     (case create_strategy py (strategies w) ''linear'' None of
        Inl e \<Rightarrow> Inl e
      | Inr strat \<Rightarrow>
          (let eng = EvolutionEngine_init (Some strat) (DEBUG w);
               (logger, w1) = SingletonMeta_call EvolutionLogger_class w;
               eng1 = attach_observer (EvolutionLogger logger) eng;
               eng2 = attach_observer SilentObserver eng1
           in Inr (eng2, w1)))"

text \<open>
  \<^verbatim>\<open>run_evolution_pipeline\<close>, on the orchestrator stored at \<open>self\<close>: the engine is
  built at the first call and kept in the orchestrator.
\<close>

definition run_evolution_pipeline ::
  "builtins \<Rightarrow> addr \<Rightarrow> organism \<Rightarrow> world \<Rightarrow> error + (organism \<times> world)" where
  "run_evolution_pipeline py self initial_organism w =
     (case engine (orchestrators w self) of
        Some eng \<Rightarrow> run_evolution eng (Some initial_organism) w
      | None \<Rightarrow>
          (case initialize_engine py w of
             Inl e \<Rightarrow> Inl e
           | Inr (eng, w1) \<Rightarrow>
               (let w2 = w1\<lparr>orchestrators :=
                             (orchestrators w1)(self := (orchestrators w1 self)\<lparr>engine := Some eng\<rparr>)\<rparr>
                in run_evolution eng (Some initial_organism) w2)))"

definition extract_message :: "builtins \<Rightarrow> source \<Rightarrow> error + string" where
  "extract_message py message_bearer =
     (case generate py message_bearer ''composed'' of
        Inl e \<Rightarrow> Inl e
      | Inr raw_message \<Rightarrow> Inr (apply_pipeline raw_message [identity]))"

definition create_lazy_output :: "string \<Rightarrow> LazyMessage" where
  "create_lazy_output message = LazyMessage_init (\<lambda>u. message)"

text \<open>
  \<^verbatim>\<open>ComplexityWrapper\<close>: its constructor asks for the singleton orchestrator and
  keeps the reference; \<^verbatim>\<open>pipeline_execute\<close> runs the five stages of the pipeline
  on it.
\<close>

definition ComplexityWrapper_init :: "world \<Rightarrow> addr \<times> world" where
  "ComplexityWrapper_init w = SingletonMeta_call HelloWorldOrchestrator_class w"

definition pipeline_execute :: "builtins \<Rightarrow> addr \<Rightarrow> world \<Rightarrow> error + (string \<times> world)" where
  "pipeline_execute py orchestrator w =
     (case create_initial_organism py of
        Inl e \<Rightarrow> Inl e
      | Inr org \<Rightarrow>
          (case run_evolution_pipeline py orchestrator org w of
             Inl e \<Rightarrow> Inl e
           | Inr (bearer, w1) \<Rightarrow>
               (case extract_message py (Organism bearer) of
                  Inl e \<Rightarrow> Inl e
                | Inr message \<Rightarrow>
                    (let lazy = create_lazy_output message;
                         (result, forced) = force lazy
                     in Inr (result, w1)))))"

text \<open>
  \<^verbatim>\<open>say_hello\<close>, the method \<^verbatim>\<open>MetaHelloWorld\<close> adds to
  \<^verbatim>\<open>Application\<close>: a new wrapper, then its pipeline.
\<close>

definition say_hello :: "builtins \<Rightarrow> world \<Rightarrow> error + (string \<times> world)" where
  "say_hello py w =
     (let (orchestrator, w1) = ComplexityWrapper_init w
      in pipeline_execute py orchestrator w1)"

text \<open>The value a run returns, or its error: the final state is dropped.\<close>

definition returned :: "error + ('a \<times> world) \<Rightarrow> error + 'a" where
  "returned r = map_sum id fst r"

text \<open>Two choices of the built-in functions, for the examples.\<close>

definition example_builtins :: builtins where
  "example_builtins =
     \<lparr>object_str = (\<lambda>x. ''a life form''), unicode_lower = (\<lambda>s. s), unicode_strip = (\<lambda>s. s)\<rparr>"

definition other_builtins :: builtins where
  "other_builtins =
     \<lparr>object_str = (\<lambda>x. ''another life form''), unicode_lower = rev, unicode_strip = rev\<rparr>"

section \<open>Auxiliary facts\<close>

lemmas organism_defs =
  Fish_init_def Amphibian_init_def Reptile_init_def Dinosaur_init_def
  carry_message_def LifeForm_init_def get_message_fragment_def mutate_def fmap_def Let_def

subsection \<open>Life forms\<close>

lemma mutate_fields:
  "complexity (mutate f lf) = get (dna lf) * f"
  "dna (mutate f lf) = DNASequence (get (dna lf) * f)"
  "message_fragment (mutate f lf) = message_fragment lf"
  by (simp_all add: mutate_def fmap_def Let_def)

lemma dna_matches_mutate: "dna_matches (mutate f lf)"
  by (simp add: dna_matches_def mutate_fields)

lemma dna_matches_init: "dna_matches (carry_message m (LifeForm_init c))"
  by (simp add: dna_matches_def carry_message_def LifeForm_init_def)

lemma dna_invariant_constructed:
  "dna_invariant Fish_init"
  "dna_invariant (Amphibian_init c m)"
  "dna_invariant (Reptile_init c m)"
  "dna_invariant (Dinosaur_init c m)"
  "dna_invariant (MessageBearer m)"
  by (simp_all add: dna_invariant_def dna_matches_init
      Fish_init_def Amphibian_init_def Reptile_init_def Dinosaur_init_def)

subsection \<open>The loop of the engine\<close>

text \<open>The observers change nothing but the entries of the loggers.\<close>

lemma on_evolution_step_frame:
  "DEBUG (on_evolution_step ob org stage w) = DEBUG w"
  "instances (on_evolution_step ob org stage w) = instances w"
  "strategies (on_evolution_step ob org stage w) = strategies w"
  "next_addr (on_evolution_step ob org stage w) = next_addr w"
  "orchestrators (on_evolution_step ob org stage w) = orchestrators w"
  by (cases ob; simp)+

lemma notify_fold_frame:
  "DEBUG (foldl (\<lambda>w' ob. on_evolution_step ob org stage w') w obs) = DEBUG w \<and>
   instances (foldl (\<lambda>w' ob. on_evolution_step ob org stage w') w obs) = instances w \<and>
   strategies (foldl (\<lambda>w' ob. on_evolution_step ob org stage w') w obs) = strategies w \<and>
   next_addr (foldl (\<lambda>w' ob. on_evolution_step ob org stage w') w obs) = next_addr w \<and>
   orchestrators (foldl (\<lambda>w' ob. on_evolution_step ob org stage w') w obs) = orchestrators w"
proof (induction obs arbitrary: w)
  case Nil
  show ?case by simp
next
  case (Cons ob obs)
  show ?case by (simp add: Cons.IH on_evolution_step_frame)
qed

lemma notify_observers_frame:
  "DEBUG (notify_observers eng org stage w) = DEBUG w"
  "instances (notify_observers eng org stage w) = instances w"
  "strategies (notify_observers eng org stage w) = strategies w"
  "next_addr (notify_observers eng org stage w) = next_addr w"
  "orchestrators (notify_observers eng org stage w) = orchestrators w"
  using notify_fold_frame [of org stage w "observers eng"]
  by (simp_all add: notify_observers_def)

text \<open>
  The whole loop on a fish: four evolutions, then the pass that meets the
  \<^verbatim>\<open>MessageBearer\<close>; each pass notifies the observers once.
\<close>

lemma run_stages_from_fish:
  "run_stages eng stages (Fish lf) w =
     Inr (MessageBearer (message_fragment lf @ ''ello World''),
       notify_observers eng (MessageBearer (message_fragment lf @ ''ello World'')) TRANSCENDENT
        (notify_observers eng
           (Dinosaur_init (get (dna lf) * 2 * 3 * 4) (message_fragment lf @ ''ello '')) APEX_PREDATOR
          (notify_observers eng
             (Reptile_init (get (dna lf) * 2 * 3) (message_fragment lf @ ''ello'')) TERRESTRIAL
            (notify_observers eng
               (Amphibian_init (get (dna lf) * 2) (message_fragment lf)) AMPHIBIOUS
              (notify_observers eng (Fish lf) AQUATIC w)))))"
  by (simp add: run_stages_def stages_def stage_step_def organism_defs)

lemma run_evolution_run_stages:
  "run_evolution eng initial w =
     run_stages eng stages (case initial of None \<Rightarrow> Fish_init | Some given \<Rightarrow> given) w"
  by (simp add: run_evolution_def run_evolution_with_def run_stages_def)

lemma run_evolution_fish:
  "\<exists>w'. run_evolution eng (Some Fish_init) w = Inr (MessageBearer ''Hello World'', w') \<and>
        strategies w' = strategies w"
  unfolding run_evolution_run_stages Fish_init_def
  by (simp add: run_stages_from_fish notify_observers_frame carry_message_def LifeForm_init_def)

text \<open>
  With the observers and the life forms of the repository no pass fails: the guard
  \<^verbatim>\<open>hasattr(current, 'evolve')\<close> keeps \<^verbatim>\<open>evolve\<close> from being called on a
  \<^verbatim>\<open>MessageBearer\<close>.
\<close>

lemma stage_step_succeeds:
  "\<exists>r. stage_step eng stage current w = Inr (r, notify_observers eng current stage w)"
  by (cases current) (simp_all add: stage_step_def Let_def)


lemma run_loop_continues:
  "body stage current w = Inr (Continue next_form, w1) \<Longrightarrow>
   run_loop body (stage # rest) current w = run_loop body rest next_form w1"
  by simp

lemma run_loop_breaks:
  "body stage current w = Inr (Break final, w1) \<Longrightarrow>
   run_loop body (stage # rest) current w = Inr (final, w1)"
  by simp

subsection \<open>The factories\<close>

text \<open>Names are registered lower-cased, and an entry, once there, is never removed.\<close>

lemma register_stores_lower:
  "register py species_type cls registry (lower py species_type) = Some cls"
  "register_strategy py name strategy_cls strategy_registry (lower py name) = Some strategy_cls"
  by (simp_all add: register_def register_strategy_def)

lemma register_keeps:
  "registry key \<noteq> None \<Longrightarrow> register py species_type cls registry key \<noteq> None"
  "strategy_registry key \<noteq> None \<Longrightarrow>
     register_strategy py name strategy_cls strategy_registry key \<noteq> None"
  by (simp_all add: register_def register_strategy_def)

lemma lower_literals:
  "lower py ''fish'' = ''fish''"
  "lower py ''linear'' = ''linear''"
  by (simp_all add: lower_def is_ascii_def ascii_lower_char_def)



subsection \<open>The result extractor\<close>

lemma extract_message_bearer: "extract_message py (Organism (MessageBearer x)) = Inr x"
  by (simp add: extract_message_def generate_def MessageGenerator_strategies_def
      apply_pipeline_def identity_def)

lemma extract_message_text: "extract_message py (Text x) = Inr x"
  by (simp add: extract_message_def generate_def MessageGenerator_strategies_def
      apply_pipeline_def identity_def)

subsection \<open>Singletons\<close>






lemma SingletonMeta_call_strategies: "strategies (snd (SingletonMeta_call cls w)) = strategies w"
  by (cases cls) (simp_all add: SingletonMeta_call_def split: option.splits)

subsection \<open>The pipeline\<close>

lemma create_initial_organism_fish: "create_initial_organism py = Inr Fish_init"
  by (simp add: create_initial_organism_def create_life_form_def ConcreteLifeFormFactory_init_def
      lower_literals)

lemma initialize_engine_ok:
  assumes "strategies w ''linear'' \<noteq> None"
  shows "\<exists>eng w1. initialize_engine py w = Inr (eng, w1) \<and> strategies w1 = strategies w"
proof -
  from assms obtain c where c: "strategies w ''linear'' = Some c"
    by auto
  have "\<exists>strat. create_strategy py (strategies w) ''linear'' None = Inr strat"
    by (cases c) (simp_all add: create_strategy_def lower_literals c or_default_def)
  then show ?thesis
    using SingletonMeta_call_strategies [of EvolutionLogger_class w]
    by (auto simp: initialize_engine_def Let_def split: prod.splits)
qed

lemma run_evolution_pipeline_ok:
  assumes "strategies w ''linear'' \<noteq> None"
  shows "\<exists>w'. run_evolution_pipeline py self Fish_init w = Inr (MessageBearer ''Hello World'', w') \<and>
              strategies w' = strategies w"
proof (cases "engine (orchestrators w self)")
  case (Some eng)
  then show ?thesis
    using run_evolution_fish [of eng w] by (auto simp: run_evolution_pipeline_def)
next
  case None
  from initialize_engine_ok [OF assms, of py] obtain eng w1 where
    i: "initialize_engine py w = Inr (eng, w1)" and s: "strategies w1 = strategies w"
    by blast
  let ?w2 = "w1\<lparr>orchestrators :=
                  (orchestrators w1)(self := (orchestrators w1 self)\<lparr>engine := Some eng\<rparr>)\<rparr>"
  from run_evolution_fish [of eng ?w2] obtain w' where
    "run_evolution eng (Some Fish_init) ?w2 = Inr (MessageBearer ''Hello World'', w')"
    "strategies w' = strategies ?w2"
    by blast
  then show ?thesis
    using None i s by (simp add: run_evolution_pipeline_def)
qed

lemma pipeline_execute_ok:
  assumes "strategies w ''linear'' \<noteq> None"
  shows "\<exists>w'. pipeline_execute py a w = Inr (''Hello World'', w') \<and>
              strategies w' = strategies w"
proof -
  from run_evolution_pipeline_ok [OF assms, of py a] obtain w' where
    "run_evolution_pipeline py a Fish_init w = Inr (MessageBearer ''Hello World'', w')"
    "strategies w' = strategies w"
    by blast
  then show ?thesis
    by (simp add: pipeline_execute_def create_initial_organism_fish extract_message_bearer
        create_lazy_output_def LazyMessage_init_def force_def Let_def)
qed

lemma say_hello_ok:
  assumes "strategies w ''linear'' \<noteq> None"
  shows "\<exists>w'. say_hello py w = Inr (''Hello World'', w') \<and> strategies w' = strategies w"
proof -
  obtain a w1 where c: "ComplexityWrapper_init w = (a, w1)"
    by (cases "ComplexityWrapper_init w")
  have s: "strategies w1 = strategies w"
    using c SingletonMeta_call_strategies [of HelloWorldOrchestrator_class w]
    by (simp add: ComplexityWrapper_init_def)
  with assms have "strategies w1 ''linear'' \<noteq> None"
    by simp
  from pipeline_execute_ok [OF this, of py a] show ?thesis
    using c s by (auto simp: say_hello_def)
qed

section \<open>The claims\<close>

text \<open>
  \<^bold>\<open>Claim C1.\<close>  Whatever the engine (its strategy, observers and debug flag) and
  the state of the process, \<^verbatim>\<open>run_evolution\<close> on the seed (no organism given, or
  the fish the constructor builds, which carries \<open>H\<close>) returns a
  \<^verbatim>\<open>MessageBearer\<close> whose \<^verbatim>\<open>reveal\<close> is \<open>Hello World\<close>.  The forms after
  one, two, three and four stages are the amphibian carrying \<open>Hello\<close>, the reptile
  carrying \<open>Hello\<close> and a space, the dinosaur carrying \<open>Hello World\<close> and the
  message bearer.
\<close>

theorem run_evolution_reveals_hello_world:
  "returned (run_evolution eng None w) = Inr (MessageBearer ''Hello World'') \<and>
   returned (run_evolution eng (Some Fish_init) w) = Inr (MessageBearer ''Hello World'') \<and>
   reveal (MessageBearer ''Hello World'') = Inr ''Hello World'' \<and>
   Fish_init = Fish \<lparr>complexity = 1, dna = DNASequence 1, message_fragment = ''H''\<rparr> \<and>
   returned (run_stages eng (take 1 stages) Fish_init w) =
     Inr (Amphibian \<lparr>complexity = 2, dna = DNASequence 2, message_fragment = ''Hello''\<rparr>) \<and>
   returned (run_stages eng (take 2 stages) Fish_init w) =
     Inr (Reptile \<lparr>complexity = 6, dna = DNASequence 6, message_fragment = ''Hello ''\<rparr>) \<and>
   returned (run_stages eng (take 3 stages) Fish_init w) =
     Inr (Dinosaur \<lparr>complexity = 24, dna = DNASequence 24, message_fragment = ''Hello World''\<rparr>) \<and>
   returned (run_stages eng (take 4 stages) Fish_init w) = Inr (MessageBearer ''Hello World'')"
  by (simp add: returned_def run_evolution_run_stages run_stages_def stages_def stage_step_def
      organism_defs)



text \<open>
  \<^bold>\<open>Claim C4.\<close>  At the last stage a pass of the loop is the identity: for every
  string \<open>s\<close>, the pass at \<open>TRANSCENDENT\<close> on a \<^verbatim>\<open>MessageBearer\<close> holding
  \<open>s\<close> ends the loop with the same \<^verbatim>\<open>MessageBearer\<close>, whose \<^verbatim>\<open>reveal\<close>
  is \<open>s\<close>.  The last stage of \<^verbatim>\<open>run_evolution\<close> meets nothing else: from
  whatever organism the run starts, the first four stages leave a
  \<^verbatim>\<open>MessageBearer\<close>, and the run through all five returns that one, with the
  same message.
\<close>

theorem terminal_stage_is_identity:
  "stage_step eng TRANSCENDENT (MessageBearer s) w =
     Inr (Break (MessageBearer s), notify_observers eng (MessageBearer s) TRANSCENDENT w) \<and>
   returned (run_stages eng [TRANSCENDENT] (MessageBearer s) w) = Inr (MessageBearer s) \<and>
   reveal (MessageBearer s) = Inr s \<and>
   (\<exists>m. returned (run_stages eng (butlast stages) initial w) = Inr (MessageBearer m) \<and>
        returned (run_stages eng stages initial w) = Inr (MessageBearer m))"
proof -
  have pass: "stage_step eng TRANSCENDENT (MessageBearer s) w =
     Inr (Break (MessageBearer s), notify_observers eng (MessageBearer s) TRANSCENDENT w)"
    by (simp add: stage_step_def Let_def)
  have run: "\<exists>m. returned (run_stages eng (butlast stages) initial w) = Inr (MessageBearer m) \<and>
        returned (run_stages eng stages initial w) = Inr (MessageBearer m)"
    by (cases initial)
      (simp_all add: run_stages_def stages_def stage_step_def organism_defs returned_def)
  show ?thesis
    using pass run by (simp add: returned_def run_stages_def)
qed

text \<open>
  \<^bold>\<open>Claim C5.\<close>  \<^verbatim>\<open>extract_message\<close> returns what it is given, unchanged and
  without failing: the message of a \<^verbatim>\<open>MessageBearer\<close> and a plain string alike,
  the empty string included.  Its transformation, \<^verbatim>\<open>apply_pipeline\<close> with
  \<^verbatim>\<open>identity\<close> alone, is the identity on every string, so applying it twice is
  applying it once.
\<close>

theorem extract_message_is_identity:
  "extract_message py (Organism (MessageBearer x)) = Inr x \<and>
   extract_message py (Text x) = Inr x \<and>
   extract_message py (Text []) = Inr [] \<and>
   extract_message py (Organism (MessageBearer [])) = Inr [] \<and>
   apply_pipeline x [identity] = x \<and>
   apply_pipeline (apply_pipeline x [identity]) [identity] = apply_pipeline x [identity] \<and>
   (\<exists>y. extract_message py (Text x) = Inr y \<and>
        extract_message py (Text y) = extract_message py (Text x))"
  by (simp add: extract_message_bearer extract_message_text apply_pipeline_def identity_def)

text \<open>
  \<^bold>\<open>Claim C6.\<close>  The string \<^verbatim>\<open>pipeline_execute\<close> returns does not depend on
  the state of the process it starts in.  Whatever the debug flag, the registered
  singletons, the stored orchestrators (with or without a cached engine) and loggers,
  whichever orchestrator the wrapper refers to and whatever the built-in functions do
  beyond ASCII text, it returns \<open>Hello World\<close>, as
  long as the strategy table still has its entry \<open>linear\<close> (which
  \<^verbatim>\<open>register_strategy\<close> can replace but not remove).  So any two invocations
  return the same string, also when the second starts in the state the first has left,
  and \<^verbatim>\<open>say_hello\<close> returns it from any such state.
\<close>

theorem pipeline_execute_deterministic:
  assumes "strategies w1 ''linear'' \<noteq> None" and "strategies w2 ''linear'' \<noteq> None"
  shows
    "returned (pipeline_execute py1 a1 w1) = returned (pipeline_execute py2 a2 w2) \<and>
     returned (pipeline_execute py1 a1 w1) = Inr ''Hello World'' \<and>
     (\<exists>w1'. pipeline_execute py1 a1 w1 = Inr (''Hello World'', w1') \<and>
            returned (pipeline_execute py1 a1 w1') = Inr ''Hello World'') \<and>
     returned (say_hello py1 w1) = returned (say_hello py2 w2) \<and>
     returned (say_hello py1 w1) = Inr ''Hello World''"
proof -
  from pipeline_execute_ok [OF assms(1), of py1 a1] obtain w1' where
    1: "pipeline_execute py1 a1 w1 = Inr (''Hello World'', w1')" "strategies w1' = strategies w1"
    by blast
  from pipeline_execute_ok [OF assms(2), of py2 a2] obtain w2' where
    2: "pipeline_execute py2 a2 w2 = Inr (''Hello World'', w2')"
    by blast
  from 1 assms(1) have "strategies w1' ''linear'' \<noteq> None"
    by simp
  from pipeline_execute_ok [OF this, of py1 a1] obtain w1'' where
    3: "pipeline_execute py1 a1 w1' = Inr (''Hello World'', w1'')"
    by blast
  from say_hello_ok [OF assms(1), of py1] obtain v1 where
    4: "say_hello py1 w1 = Inr (''Hello World'', v1)"
    by blast
  from say_hello_ok [OF assms(2), of py2] obtain v2 where
    5: "say_hello py2 w2 = Inr (''Hello World'', v2)"
    by blast
  show ?thesis
    using 1 2 3 4 5 by (simp add: returned_def)
qed

theorem pipeline_execute_deterministic_witness:
  "strategies (initial_world False) ''linear'' \<noteq> None \<and>
   strategies (initial_world True) ''linear'' \<noteq> None \<and>
   returned (pipeline_execute example_builtins 0 (initial_world False)) =
     returned (pipeline_execute other_builtins 1 (initial_world True)) \<and>
   returned (pipeline_execute example_builtins 0 (initial_world False)) = Inr ''Hello World''"
proof -
  have h1: "strategies (initial_world False) ''linear'' \<noteq> None"
    by (simp add: initial_world_def EvolutionStrategyFactory_strategies_def)
  have h2: "strategies (initial_world True) ''linear'' \<noteq> None"
    by (simp add: initial_world_def EvolutionStrategyFactory_strategies_def)
  show ?thesis
    using h1 h2
      pipeline_execute_deterministic [OF h1 h2, of example_builtins 0 other_builtins 1]
    by auto
qed



text \<open>
  \<^bold>\<open>Claim C8.\<close>  For a strategy name that is none of \<open>simple\<close>, \<open>dynamic\<close>,
  \<open>meta\<close> and \<open>composed\<close>, \<^verbatim>\<open>generate\<close> does not fail: it returns
  \<^verbatim>\<open>str(source)\<close>, what the simple generation returns, for every source.
\<close>

theorem generate_unknown_strategy_falls_back:
  "strat \<notin> {''simple'', ''dynamic'', ''meta'', ''composed''} \<Longrightarrow>
   generate py src strat = Inr (py_str py src) \<and>
   generate py src strat = generate py src ''simple''"
  by (simp add: generate_def MessageGenerator_strategies_def simple_generation_def)

theorem generate_unknown_strategy_falls_back_witness:
  "''unknown'' \<notin> {''simple'', ''dynamic'', ''meta'', ''composed''} \<and>
   generate example_builtins (Organism (MessageBearer ''Hello World'')) ''unknown'' =
     Inr ''Hello World'' \<and>
   generate example_builtins (Organism Fish_init) ''unknown'' = Inr ''a life form''"
proof -
  have h: "''unknown'' \<notin> {''simple'', ''dynamic'', ''meta'', ''composed''}"
    by simp
  show ?thesis
    using h
      generate_unknown_strategy_falls_back
        [OF h, of example_builtins "Organism (MessageBearer ''Hello World'')"]
      generate_unknown_strategy_falls_back [OF h, of example_builtins "Organism Fish_init"]
    by (simp add: Fish_init_def example_builtins_def)
qed


text \<open>
  \<^bold>\<open>Claim C10.\<close>  Every life form satisfies \<^verbatim>\<open>self._dna.get() == self.complexity\<close>
  after its construction (whatever complexity and message it is given) and after every
  \<^verbatim>\<open>mutate\<close> (whatever the factor and the state before).  On a life form that
  satisfies it, \<^verbatim>\<open>mutate\<close> multiplies the complexity by its factor, and
  \<^verbatim>\<open>evolve\<close> multiplies it by the factor of the class: 2 for a fish, 3 for an
  amphibian, 4 for a reptile, 5 for a dinosaur; the next form inherits the product.  On
  the default chain the complexities are 1, 2, 6 and 24, and the last
  \<^verbatim>\<open>evolve\<close> leaves 120 in the dinosaur.
\<close>

theorem dna_invariant_and_stage_factors:
  assumes "dna_matches lf"
  shows
    "dna_invariant Fish_init \<and> dna_invariant (Amphibian_init c m) \<and>
     dna_invariant (Reptile_init c m) \<and> dna_invariant (Dinosaur_init c m) \<and>
     dna_matches (mutate f other) \<and>
     complexity (mutate f lf) = complexity lf * f \<and>
     evolve (Fish lf) =
       Inr (Fish (mutate 2 lf), Amphibian_init (complexity lf * 2) (message_fragment lf)) \<and>
     evolve (Amphibian lf) =
       Inr (Amphibian (mutate 3 lf), Reptile_init (complexity lf * 3) (message_fragment lf)) \<and>
     evolve (Reptile lf) =
       Inr (Reptile (mutate 4 lf), Dinosaur_init (complexity lf * 4) (message_fragment lf)) \<and>
     evolve (Dinosaur lf) =
       Inr (Dinosaur (mutate 5 lf), MessageBearer (message_fragment lf)) \<and>
     complexity_of Fish_init = Some 1 \<and>
     evolve Fish_init =
       Inr (Fish (mutate 2 (carry_message ''H'' (LifeForm_init 1))), Amphibian_init 2 ''H'') \<and>
     complexity_of (Amphibian_init 2 ''H'') = Some 2 \<and>
     evolve (Amphibian_init 2 ''H'') =
       Inr (Amphibian (mutate 3 (carry_message ''Hello'' (LifeForm_init 2))),
            Reptile_init 6 ''Hello'') \<and>
     complexity_of (Reptile_init 6 ''Hello'') = Some 6 \<and>
     evolve (Reptile_init 6 ''Hello'') =
       Inr (Reptile (mutate 4 (carry_message ''Hello '' (LifeForm_init 6))),
            Dinosaur_init 24 ''Hello '') \<and>
     complexity_of (Dinosaur_init 24 ''Hello '') = Some 24 \<and>
     evolve (Dinosaur_init 24 ''Hello '') =
       Inr (Dinosaur (mutate 5 (carry_message ''Hello World'' (LifeForm_init 24))),
            MessageBearer ''Hello World'') \<and>
     complexity (mutate 5 (carry_message ''Hello World'' (LifeForm_init 24))) = 120"
proof -
  have inv: "dna_invariant Fish_init \<and> dna_invariant (Amphibian_init c m) \<and>
     dna_invariant (Reptile_init c m) \<and> dna_invariant (Dinosaur_init c m) \<and>
     dna_matches (mutate f other)"
    by (simp add: dna_invariant_constructed dna_matches_mutate)
  have mut: "complexity (mutate f lf) = complexity lf * f"
    using assms by (simp add: mutate_fields dna_matches_def)
  have step: "evolve (Fish lf) =
       Inr (Fish (mutate 2 lf), Amphibian_init (complexity lf * 2) (message_fragment lf)) \<and>
     evolve (Amphibian lf) =
       Inr (Amphibian (mutate 3 lf), Reptile_init (complexity lf * 3) (message_fragment lf)) \<and>
     evolve (Reptile lf) =
       Inr (Reptile (mutate 4 lf), Dinosaur_init (complexity lf * 4) (message_fragment lf)) \<and>
     evolve (Dinosaur lf) =
       Inr (Dinosaur (mutate 5 lf), MessageBearer (message_fragment lf))"
    using assms
    by (simp add: Let_def mutate_fields dna_matches_def get_message_fragment_def)
  have chain: "complexity_of Fish_init = Some 1 \<and>
     evolve Fish_init =
       Inr (Fish (mutate 2 (carry_message ''H'' (LifeForm_init 1))), Amphibian_init 2 ''H'') \<and>
     complexity_of (Amphibian_init 2 ''H'') = Some 2 \<and>
     evolve (Amphibian_init 2 ''H'') =
       Inr (Amphibian (mutate 3 (carry_message ''Hello'' (LifeForm_init 2))),
            Reptile_init 6 ''Hello'') \<and>
     complexity_of (Reptile_init 6 ''Hello'') = Some 6 \<and>
     evolve (Reptile_init 6 ''Hello'') =
       Inr (Reptile (mutate 4 (carry_message ''Hello '' (LifeForm_init 6))),
            Dinosaur_init 24 ''Hello '') \<and>
     complexity_of (Dinosaur_init 24 ''Hello '') = Some 24 \<and>
     evolve (Dinosaur_init 24 ''Hello '') =
       Inr (Dinosaur (mutate 5 (carry_message ''Hello World'' (LifeForm_init 24))),
            MessageBearer ''Hello World'') \<and>
     complexity (mutate 5 (carry_message ''Hello World'' (LifeForm_init 24))) = 120"
    by (simp add: complexity_of_def organism_defs)
  from inv mut step chain show ?thesis by simp
qed

theorem dna_invariant_and_stage_factors_witness:
  "dna_matches (carry_message ''H'' (LifeForm_init 1)) \<and>
   complexity (mutate 2 (carry_message ''H'' (LifeForm_init 1))) = 2 \<and>
   evolve (Fish (carry_message ''H'' (LifeForm_init 1))) =
     Inr (Fish (mutate 2 (carry_message ''H'' (LifeForm_init 1))), Amphibian_init 2 ''H'')"
proof -
  have h: "dna_matches (carry_message ''H'' (LifeForm_init 1))"
    by (rule dna_matches_init)
  show ?thesis
    using h dna_invariant_and_stage_factors [OF h, of 0 "''''" 2 "LifeForm_init 1"]
    by (simp add: carry_message_def LifeForm_init_def)
qed

end
